theory Spec2Isabelle
  imports Complex_Main "HOL-Library.Sublist" "HOL-Library.Word"
begin

section \<open>Strings\<close>

text \<open>
  A JavaScript string is modelled as a \<open>string\<close> whose characters are the code units
  0..255 (ASCII and the Latin-1 supplement). On this range \<open>String.prototype.normalize\<close>
  is the identity and \<open>length\<close> counts characters.
\<close>

definition is_digit :: "char \<Rightarrow> bool" where
  "is_digit c = (let n = (of_char c :: nat) in 48 \<le> n \<and> n \<le> 57)"

definition is_upper :: "char \<Rightarrow> bool" where
  "is_upper c = (let n = (of_char c :: nat) in 65 \<le> n \<and> n \<le> 90)"

definition is_lower :: "char \<Rightarrow> bool" where
  "is_lower c = (let n = (of_char c :: nat) in 97 \<le> n \<and> n \<le> 122)"

definition is_alnum :: "char \<Rightarrow> bool" where
  \<comment> \<open>the regular-expression class \<open>[A-Za-z0-9]\<close>\<close>
  "is_alnum c = (is_upper c \<or> is_lower c \<or> is_digit c)"

definition is_space :: "char \<Rightarrow> bool" where
  \<comment> \<open>\<open>\s\<close> and the characters \<open>trim()\<close> removes: TAB, LF, VT, FF, CR, SPACE, NBSP\<close>
  "is_space c = (let n = (of_char c :: nat) in (9 \<le> n \<and> n \<le> 13) \<or> n = 32 \<or> n = 160)"

definition toLowerCase_char :: "char \<Rightarrow> char" where
  \<comment> \<open>\<open>A-Z\<close> and the Latin-1 capitals (all of 192..222 but the multiplication sign)\<close>
  "toLowerCase_char c =
     (let n = (of_char c :: nat)
      in if (65 \<le> n \<and> n \<le> 90) \<or> (192 \<le> n \<and> n \<le> 222 \<and> n \<noteq> 215)
         then char_of (n + 32) else c)"

definition toLowerCase :: "string \<Rightarrow> string" where
  "toLowerCase s = map toLowerCase_char s"

definition trim :: "string \<Rightarrow> string" where
  "trim s = rev (dropWhile is_space (rev (dropWhile is_space s)))"

section \<open>Slug derivation (src/app.js, Product model)\<close>

text \<open>
  \<open>slug_charset\<close> is the character set \<open>[a-z0-9-]\<close>; \<open>strict_charset\<close> is what the
  \<open>strict\<close> option of the slugify package leaves in its result: \<open>[A-Za-z0-9]\<close> and the
  replacement character \<open>-\<close>.
\<close>

definition slug_char :: "char \<Rightarrow> bool" where
  "slug_char c = (is_lower c \<or> is_digit c \<or> c = CHR ''-'')"

definition slug_charset :: "string \<Rightarrow> bool" where
  "slug_charset s = list_all slug_char s"

definition strict_char :: "char \<Rightarrow> bool" where
  "strict_char c = (is_alnum c \<or> c = CHR ''-'')"

definition strict_charset :: "string \<Rightarrow> bool" where
  "strict_charset s = list_all strict_char s"

text \<open>Replacing every run of whitespace by one hyphen: \<open>s.replace(/\s+/g, '-')\<close>.\<close>

fun hyphenate :: "bool \<Rightarrow> string \<Rightarrow> string" where
  "hyphenate in_run [] = []"
| "hyphenate in_run (c # cs) =
     (if is_space c then (if in_run then hyphenate True cs else CHR ''-'' # hyphenate True cs)
      else c # hyphenate False cs)"

text \<open>
  Modelled from the spec: \<open>slugify\<close>, the function of the slugify package that the pre-save
  hook calls as \<open>slugify(this.title, { lower: true, strict: true })\<close>; its source is not
  under src/. Section 4.2 of the spec gives the rule: a deterministic transliteration,
  then "strip punctuation, collapse whitespace to single hyphens, lowercase". The
  transliteration table (one replacement text per character) is the parameter \<open>tr\<close>;
  whitespace left at either end after stripping is dropped, not hyphenated.
\<close>

definition slugify :: "(char \<Rightarrow> string) \<Rightarrow> string \<Rightarrow> string" where
  "slugify tr str =
     toLowerCase
       (hyphenate False
          (trim (filter (\<lambda>c. is_alnum c \<or> is_space c) (concat (map tr str)))))"

subsection \<open>The Product document\<close>

text \<open>
  A document holds the values after Mongoose has cast them; \<open>None\<close> is an absent
  (\<open>undefined\<close>) value. The numbers that validation compares are rationals.
\<close>

type_synonym objectId = string

record variant =
  size_v :: "string option"
  price :: "rat option"
  stock :: "rat option"

record accordion =
  details :: "string option"
  shipping :: "string option"
  returns :: "string option"

record product =
  title :: "string option"
  description :: "string option"
  discountPercentage :: "rat option"
  brand :: "string option"
  slug :: "string option"
  rating :: "rat option"
  category :: "string option"
  thumbnail :: "string option"
  images :: "string list"
  productBG :: "string option"
  variants :: "variant list"
  packaging :: "string list"
  accordion :: "accordion option"
  tags :: "objectId list"
  isActive :: bool
  createdAt :: nat

text \<open>
  A validation error names the path it is about (\<open>images.0\<close>, \<open>variants.1.price\<close>,
  \<open>accordion.details\<close>) and carries the message of the failed validator: the one written
  in the schema, or Mongoose's built-in one where the schema gives none.
\<close>

datatype path = Field string | Index string nat | Nested string string | IndexNested string nat string

datatype message = Custom string | BuiltinRequired | BuiltinEnum

datatype error = SlugifyStringExpected | ValidationError "(path \<times> message) list"

text \<open>The setters of the \<open>slug\<close> path (\<open>trim: true, lowercase: true\<close>), applied on assignment.\<close>

definition slug_setters :: "string \<Rightarrow> string" where
  "slug_setters v = trim (toLowerCase v)"

text \<open>\<open>!this.slug\<close>: an absent or empty slug.\<close>

definition no_slug :: "product \<Rightarrow> bool" where
  "no_slug doc = (case slug doc of None \<Rightarrow> True | Some s \<Rightarrow> s = [])"

text \<open>
  \<open>ProductSchema.pre('save', ...)\<close>. The slugify function is the parameter \<open>slugify_fn\<close>
  (already applied to the options of the call); it throws on a title that is not a string.
\<close>

definition pre_save :: "(string \<Rightarrow> string) \<Rightarrow> product \<Rightarrow> error + product" where
  "pre_save slugify_fn doc =
     (if no_slug doc then
        (case title doc of
           None \<Rightarrow> Inl SlugifyStringExpected
         | Some t \<Rightarrow> Inr (doc\<lparr>slug := Some (slug_setters (slugify_fn t))\<rparr>))
      else Inr doc)"

text \<open>
  \<open>ProductSchema.virtual('discountedPrices')\<close>. The getter reads \<open>this.variants\<close> (of each
  variant its \<open>size\<close> and \<open>price\<close>) and \<open>this.discountPercentage\<close>, and computes with the
  JavaScript operators \<open>-\<close>, \<open>*\<close> and \<open>/\<close>. What \<open>price\<close> and \<open>discountPercentage\<close> hold is a
  JavaScript value of an arbitrary type \<open>'v\<close> (an IEEE double, \<open>NaN\<close> and the infinities
  among them, \<open>null\<close>, \<open>undefined\<close>), a \<open>size\<close> one of an arbitrary type \<open>'s\<close>; the three
  operators and the literal \<open>100\<close> are the fields of \<open>operators\<close>, so nothing is assumed of
  rounding, overflow or coercion.
\<close>

record 'v operators =
  minus_op :: "'v \<Rightarrow> 'v \<Rightarrow> 'v"
  times_op :: "'v \<Rightarrow> 'v \<Rightarrow> 'v"
  divide_op :: "'v \<Rightarrow> 'v \<Rightarrow> 'v"
  literal_100 :: 'v

record ('s, 'v) variant_values =
  variant_size :: 's
  variant_price :: 'v

record ('s, 'v) this_values =
  this_variants :: "('s, 'v) variant_values list"
  this_discountPercentage :: 'v

record ('s, 'v) discounted =
  size_d :: 's
  discountedPrice :: 'v

definition discountedPrices ::
  "'v operators \<Rightarrow> ('s, 'v) this_values \<Rightarrow> ('s, 'v) discounted list" where
  "discountedPrices ops this =
     map (\<lambda>variant.
            \<lparr>size_d = variant_size variant,
             discountedPrice =
               minus_op ops (variant_price variant)
                 (divide_op ops
                    (times_op ops (variant_price variant) (this_discountPercentage this))
                    (literal_100 ops))\<rparr>)
         (this_variants this)"

subsection \<open>Validation of a Product document\<close>

text \<open>
  Mongoose's built-in validators. \<open>required\<close> on a string path fails on an absent or
  empty value, on a number path on an absent one; on an array path it passes for every
  array, the empty one too, and an array path always holds an array. The other built-in
  validators pass on an absent value; \<open>match\<close> also passes on the empty string.
\<close>

definition required_string :: "string option \<Rightarrow> bool" where
  "required_string v = (case v of None \<Rightarrow> False | Some s \<Rightarrow> s \<noteq> [])"

definition required_array :: "'a list \<Rightarrow> bool" where
  \<comment> \<open>Mongoose 5 and later: \<open>required\<close> on an array path only asks for an array\<close>
  "required_array xs = True"

definition required_value :: "'a option \<Rightarrow> bool" where
  "required_value v = (v \<noteq> None)"

definition minlength :: "nat \<Rightarrow> string option \<Rightarrow> bool" where
  "minlength n v = (case v of None \<Rightarrow> True | Some s \<Rightarrow> n \<le> length s)"

definition maxlength :: "nat \<Rightarrow> string option \<Rightarrow> bool" where
  "maxlength n v = (case v of None \<Rightarrow> True | Some s \<Rightarrow> length s \<le> n)"

definition min_value :: "rat \<Rightarrow> rat option \<Rightarrow> bool" where
  "min_value m v = (case v of None \<Rightarrow> True | Some x \<Rightarrow> m \<le> x)"

definition max_value :: "rat \<Rightarrow> rat option \<Rightarrow> bool" where
  "max_value m v = (case v of None \<Rightarrow> True | Some x \<Rightarrow> x \<le> m)"

definition enum :: "string list \<Rightarrow> string option \<Rightarrow> bool" where
  "enum vs v = (case v of None \<Rightarrow> True | Some s \<Rightarrow> s \<in> set vs)"

definition match :: "(string \<Rightarrow> bool) \<Rightarrow> string option \<Rightarrow> bool" where
  "match re v = (case v of None \<Rightarrow> True | Some s \<Rightarrow> s = [] \<or> re s)"

text \<open>The regular expression \<open>/^https?:\/\/.+\.(jpg|jpeg|png|gif)$/i\<close> of the image paths.\<close>

definition line_terminator :: "char \<Rightarrow> bool" where
  "line_terminator c = (let n = (of_char c :: nat) in n = 10 \<or> n = 13)"

definition image_url :: "string \<Rightarrow> bool" where
  "image_url s =
     (let l = toLowerCase s in
      list_ex (\<lambda>scheme.
        list_ex (\<lambda>ext.
          prefix scheme l \<and> suffix ext l \<and> length scheme + 1 + length ext \<le> length l \<and>
          list_all (\<lambda>c. \<not> line_terminator c)
            (take (length s - length scheme - length ext) (drop (length scheme) s)))
          [''.jpg'', ''.jpeg'', ''.png'', ''.gif''])
        [''http://'', ''https://''])"

text \<open>\<open>function arrayLimit(val) { return val.length > 0; }\<close>: on an array or on a string.\<close>

definition arrayLimit :: "'a list \<Rightarrow> bool" where
  "arrayLimit val = (length val > 0)"

text \<open>
  The validators of one path run in order (\<open>required\<close> first); the path reports its first
  failure.
\<close>

definition validate_path :: "path \<Rightarrow> (bool \<times> message) list \<Rightarrow> (path \<times> message) list" where
  "validate_path p checks =
     (case filter (\<lambda>(ok, m). \<not> ok) checks of [] \<Rightarrow> [] | (ok, m) # rest \<Rightarrow> [(p, m)])"

definition validate_variant :: "nat \<Rightarrow> variant \<Rightarrow> (path \<times> message) list" where
  "validate_variant i v =
     validate_path (IndexNested ''variants'' i ''size'')
       [(required_string (size_v v), Custom ''Variant size is required''),
        (maxlength 20 (size_v v), Custom ''Size cannot exceed 20 characters'')] @
     validate_path (IndexNested ''variants'' i ''price'')
       [(required_value (price v), Custom ''Price is required''),
        (min_value 0 (price v), Custom ''Price cannot be negative'')] @
     validate_path (IndexNested ''variants'' i ''stock'')
       [(required_value (stock v), BuiltinRequired),
        (min_value 0 (stock v), Custom ''Stock cannot be negative'')]"

definition validate_accordion :: "accordion \<Rightarrow> (path \<times> message) list" where
  "validate_accordion a =
     validate_path (Nested ''accordion'' ''details'')
       [(required_string (details a), Custom ''Details section is required''),
        (maxlength 1000 (details a), Custom ''Details cannot exceed 1000 characters'')] @
     validate_path (Nested ''accordion'' ''shipping'')
       [(required_string (shipping a), Custom ''Shipping information is required''),
        (maxlength 1000 (shipping a), Custom ''Shipping information cannot exceed 1000 characters'')] @
     validate_path (Nested ''accordion'' ''returns'')
       [(required_string (returns a), Custom ''Returns policy is required''),
        (maxlength 1000 (returns a), Custom ''Returns policy cannot exceed 1000 characters'')]"

text \<open>
  \<open>ProductSchema\<close>, path by path. In \<open>images: [{ type: String, ..., validate: [arrayLimit, ...] }]\<close>
  the options belong to the element type, so \<open>match\<close> and \<open>arrayLimit\<close> run on each string
  of the list; in \<open>variants: { type: [VariantSchema], ..., validate: [arrayLimit, ...] }\<close>
  they belong to the array path, so \<open>arrayLimit\<close> runs on the list. \<open>tag_ids\<close> are the ids
  of the Tag collection that \<open>Tag.exists\<close> reads.
\<close>

definition validate :: "objectId list \<Rightarrow> product \<Rightarrow> (path \<times> message) list" where
  "validate tag_ids doc =
     validate_path (Field ''title'')
       [(required_string (title doc), Custom ''Title is required''),
        (minlength 3 (title doc), Custom ''Title must be at least 3 characters long''),
        (maxlength 100 (title doc), Custom ''Title cannot exceed 100 characters'')] @
     validate_path (Field ''description'')
       [(required_string (description doc), Custom ''Description is required''),
        (maxlength 1000 (description doc), Custom ''Description cannot exceed 1000 characters'')] @
     validate_path (Field ''discountPercentage'')
       [(required_value (discountPercentage doc), BuiltinRequired),
        (min_value 0 (discountPercentage doc), Custom ''Discount cannot be negative''),
        (max_value 100 (discountPercentage doc), Custom ''Discount cannot exceed 100%'')] @
     validate_path (Field ''brand'')
       [(required_string (brand doc), Custom ''Brand is required''),
        (maxlength 50 (brand doc), Custom ''Brand name cannot exceed 50 characters'')] @
     validate_path (Field ''slug'')
       [(maxlength 100 (slug doc), Custom ''Slug cannot exceed 100 characters'')] @
     validate_path (Field ''rating'')
       [(min_value 0 (rating doc), Custom ''Rating cannot be less than 0''),
        (max_value 5 (rating doc), Custom ''Rating cannot exceed 5'')] @
     validate_path (Field ''category'')
       [(required_string (category doc), Custom ''Category is required''),
        (enum [''Beverages'', ''Snacks'', ''Health'', ''Other''] (category doc), BuiltinEnum)] @
     validate_path (Field ''thumbnail'')
       [(required_string (thumbnail doc), Custom ''Thumbnail is required''),
        (match image_url (thumbnail doc), Custom ''Please enter a valid image URL'')] @
     concat (map (\<lambda>(i, img).
         validate_path (Index ''images'' i)
           [(match image_url (Some img), Custom ''Please enter valid image URLs''),
            (arrayLimit img, Custom ''{PATH} must have at least one image'')])
       (enumerate 0 (images doc))) @
     validate_path (Field ''productBG'')
       [(required_string (productBG doc), BuiltinRequired),
        (match image_url (productBG doc), Custom ''Please enter a valid background image URL'')] @
     validate_path (Field ''variants'')
       [(required_array (variants doc), BuiltinRequired),
        (arrayLimit (variants doc), Custom ''{PATH} must have at least one variant'')] @
     concat (map (\<lambda>(i, v). validate_variant i v) (enumerate 0 (variants doc))) @
     validate_path (Field ''packaging'')
       [(required_array (packaging doc), BuiltinRequired)] @
     concat (map (\<lambda>(i, p).
         validate_path (Index ''packaging'' i)
           [(enum [''Bottle'', ''Box'', ''Canister''] (Some p), BuiltinEnum)])
       (enumerate 0 (packaging doc))) @
     (case accordion doc of
        None \<Rightarrow> [(Field ''accordion'', BuiltinRequired)]
      | Some a \<Rightarrow> validate_accordion a) @
     concat (map (\<lambda>(i, t).
         validate_path (Index ''tags'' i)
           [(t \<in> set tag_ids, Custom ''One or more tags are invalid.'')])
       (enumerate 0 (tags doc)))"

text \<open>
  \<open>doc.save()\<close>: validation runs before the pre-save hook of the schema; the write to the
  collection (and its unique index on \<open>slug\<close>) is the storage layer's.
\<close>

definition save :: "objectId list \<Rightarrow> (string \<Rightarrow> string) \<Rightarrow> product \<Rightarrow> error + product" where
  "save tag_ids slugify_fn doc =
     (case validate tag_ids doc of
        [] \<Rightarrow> pre_save slugify_fn doc
      | e # es \<Rightarrow> Inl (ValidationError (e # es)))"

section \<open>Category routes (src/routes/categoryRoutes.js)\<close>

subsection \<open>Requests\<close>

text \<open>
  The strings of a request are JavaScript strings: lists of UTF-16 code units. The
  literals of the program (field names, messages, the values of \<open>isIn\<close>) are ASCII and
  written as \<open>string\<close>s; \<open>js\<close> gives their code units.
\<close>

type_synonym code_unit = "16 word"

type_synonym js_string = "code_unit list"

definition js :: "string \<Rightarrow> js_string" where
  "js s = map (\<lambda>c. of_nat (of_char c)) s"

text \<open>
  A field of a request body is a JSON value: \<open>null\<close>, a boolean, a number, a string, an
  array, or an object (one without a \<open>toString\<close> property of its own); an absent field
  is \<open>None\<close> (\<open>undefined\<close>). A number is carried as the text \<open>String\<close> gives for it, which
  is all the validators read of it. A route parameter is a string.
\<close>

datatype jsval = JNull | JBool bool | JNum string | JStr js_string | JObj | JArr "jsval list"

record user =
  user_id :: string
  role :: string

datatype location = Body | Param

record validation_error =
  err_location :: location
  err_path :: string
  err_msg :: string

record request =
  req_params :: "string \<rightharpoonup> js_string"
  req_body :: "string \<rightharpoonup> jsval"
  req_user :: "user option"
  req_errors :: "validation_error list"

subsection \<open>Validation chains (express-validator)\<close>

datatype validator =
    Exists_checkFalsy
  | IsString
  | IsLength nat "nat option"
  | IsIn "string list"
  | IsMongoId
  | IsBoolean

text \<open>
  One link of a chain: \<open>.optional()\<close>, or a validator with the message that
  \<open>.withMessage\<close> gives it.
\<close>

datatype chain_item = Optional | Check validator string

record validation_chain =
  chain_location :: location
  chain_field :: string
  chain_items :: "chain_item list"

definition body :: "string \<Rightarrow> chain_item list \<Rightarrow> validation_chain" where
  "body f items = \<lparr>chain_location = Body, chain_field = f, chain_items = items\<rparr>"

definition param :: "string \<Rightarrow> chain_item list \<Rightarrow> validation_chain" where
  "param f items = \<lparr>chain_location = Param, chain_field = f, chain_items = items\<rparr>"

text \<open>The value a chain reads.\<close>

definition select_field :: "location \<Rightarrow> string \<Rightarrow> request \<Rightarrow> jsval option" where
  "select_field l f req =
     (case l of Body \<Rightarrow> req_body req f | Param \<Rightarrow> map_option JStr (req_params req f))"

text \<open>
  JavaScript's \<open>String(v)\<close>. An array is joined with commas, \<open>null\<close> elements giving the
  empty text.
\<close>

fun join_comma :: "js_string list \<Rightarrow> js_string" where
  "join_comma [] = []"
| "join_comma [s] = s"
| "join_comma (s # t # ts) = s @ js '','' @ join_comma (t # ts)"

fun js_String :: "jsval \<Rightarrow> js_string" where
  "js_String JNull = js ''null''"
| "js_String (JBool b) = (if b then js ''true'' else js ''false'')"
| "js_String (JNum r) = js r"
| "js_String (JStr s) = s"
| "js_String JObj = js ''[object Object]''"
| "js_String (JArr xs) = join_comma (map (\<lambda>x. if x = JNull then [] else js_String x) xs)"

text \<open>
  express-validator's \<open>toString(value, deep)\<close>, the text a standard validator is given:
  \<open>shallow_text\<close> is the call with \<open>deep = false\<close>, \<open>toString\<close> the one with \<open>deep = true\<close>,
  which reads a non-empty array as its first element.
\<close>

definition shallow_text :: "jsval \<Rightarrow> js_string" where
  "shallow_text x = (if x = JNull then [] else js_String x)"

fun toString :: "jsval option \<Rightarrow> js_string" where
  "toString None = []"
| "toString (Some (JArr (x # xs))) = shallow_text x"
| "toString (Some v) = shallow_text v"

text \<open>
  A standard validator (one of validator.js) runs once on a value that is no array, and
  once on each element of an array.
\<close>

definition standard_values :: "jsval option \<Rightarrow> jsval option list" where
  "standard_values v = (case v of Some (JArr xs) \<Rightarrow> map Some xs | _ \<Rightarrow> [v])"

text \<open>\<open>!!value\<close>, the test of \<open>exists({ checkFalsy: true })\<close>.\<close>

fun truthy :: "jsval option \<Rightarrow> bool" where
  "truthy None = False"
| "truthy (Some JNull) = False"
| "truthy (Some (JBool b)) = b"
| "truthy (Some (JNum r)) = (r \<noteq> ''0'')"
| "truthy (Some (JStr s)) = (s \<noteq> [])"
| "truthy (Some JObj) = True"
| "truthy (Some (JArr xs)) = True"

text \<open>\<open>typeof value === 'string'\<close>, the test of \<open>isString()\<close>.\<close>

definition is_string :: "jsval option \<Rightarrow> bool" where
  "is_string v = (case v of Some (JStr s) \<Rightarrow> True | _ \<Rightarrow> False)"

text \<open>
  validator.js. \<open>isHexadecimal\<close> tests \<open>/^(0x|0h)?[0-9A-F]+$/i\<close>; \<open>isMongoId\<close> asks for a
  hexadecimal text of length 24. \<open>isLength\<close> compares \<open>str.length\<close> less the number of
  variation selectors (U+FE0E, U+FE0F) and of surrogate pairs.
\<close>

definition is_hex_digit :: "code_unit \<Rightarrow> bool" where
  "is_hex_digit u =
     (let n = unat u
      in (48 \<le> n \<and> n \<le> 57) \<or> (65 \<le> n \<and> n \<le> 70) \<or> (97 \<le> n \<and> n \<le> 102))"

definition hex_prefix :: "js_string \<Rightarrow> bool" where
  \<comment> \<open>\<open>0x\<close> or \<open>0h\<close> at the start, in either case of the letter\<close>
  "hex_prefix s =
     (case s of
        a # b # rest \<Rightarrow> unat a = 48 \<and> (unat b = 120 \<or> unat b = 88 \<or> unat b = 104 \<or> unat b = 72)
      | _ \<Rightarrow> False)"

definition isHexadecimal :: "js_string \<Rightarrow> bool" where
  "isHexadecimal s =
     (let digits = (if hex_prefix s then drop 2 s else s)
      in digits \<noteq> [] \<and> list_all is_hex_digit digits)"

definition isMongoId :: "js_string \<Rightarrow> bool" where
  "isMongoId s = (isHexadecimal s \<and> length s = 24)"

definition variation_selector :: "code_unit \<Rightarrow> bool" where
  "variation_selector u = (unat u = 65038 \<or> unat u = 65039)"

definition high_surrogate :: "code_unit \<Rightarrow> bool" where
  "high_surrogate u = (55296 \<le> unat u \<and> unat u \<le> 56319)"

definition low_surrogate :: "code_unit \<Rightarrow> bool" where
  "low_surrogate u = (56320 \<le> unat u \<and> unat u \<le> 57343)"

text \<open>The number of matches of \<open>/[\uD800-\uDBFF][\uDC00-\uDFFF]/g\<close>.\<close>

fun surrogate_pairs :: "js_string \<Rightarrow> nat" where
  "surrogate_pairs (h # l # rest) =
     (if high_surrogate h \<and> low_surrogate l then Suc (surrogate_pairs rest)
      else surrogate_pairs (l # rest))"
| "surrogate_pairs s = 0"

definition isLength :: "nat \<Rightarrow> nat option \<Rightarrow> js_string \<Rightarrow> bool" where
  "isLength mn mx s =
     (let len = length s - length (filter variation_selector s) - surrogate_pairs s
      in mn \<le> len \<and> (case mx of None \<Rightarrow> True | Some m \<Rightarrow> len \<le> m))"

text \<open>
  The results of one validator on a value: \<open>exists\<close> and \<open>isString\<close> are custom validators
  and test the value as it is; the others are standard validators.
\<close>

fun standard_validator :: "validator \<Rightarrow> js_string \<Rightarrow> bool" where
  "standard_validator (IsLength mn mx) s = isLength mn mx s"
| "standard_validator (IsIn vs) s = (s \<in> set (map js vs))"
| "standard_validator IsMongoId s = isMongoId s"
| "standard_validator IsBoolean s = (s \<in> set (map js [''true'', ''false'', ''1'', ''0'']))"
| "standard_validator vd s = True"

fun run_validator :: "validator \<Rightarrow> jsval option \<Rightarrow> bool list" where
  "run_validator Exists_checkFalsy v = [truthy v]"
| "run_validator IsString v = [is_string v]"
| "run_validator vd v = map (\<lambda>x. standard_validator vd (toString x)) (standard_values v)"

text \<open>
  Running one chain on a request: an optional chain is skipped on an absent value;
  otherwise every validator runs (the chains of this file never call \<open>.bail()\<close>) and
  each failure adds an error with that validator's message.
\<close>

definition run_item :: "validation_chain \<Rightarrow> jsval option \<Rightarrow> chain_item \<Rightarrow> validation_error list" where
  "run_item c v item =
     (case item of
        Optional \<Rightarrow> []
      | Check vd m \<Rightarrow>
          map (\<lambda>ok. \<lparr>err_location = chain_location c, err_path = chain_field c, err_msg = m\<rparr>)
            (filter Not (run_validator vd v)))"

definition run_chain :: "validation_chain \<Rightarrow> request \<Rightarrow> validation_error list" where
  "run_chain c req =
     (let v = select_field (chain_location c) (chain_field c) req
      in if Optional \<in> set (chain_items c) \<and> v = None then []
         else concat (map (run_item c v) (chain_items c)))"

text \<open>What \<open>validationResult(req)\<close> holds once the chains of a list have run.\<close>

definition validationResult :: "validation_chain list \<Rightarrow> request \<Rightarrow> validation_error list" where
  "validationResult rules req = concat (map (\<lambda>c. run_chain c req) rules)"


subsection \<open>The validation rules\<close>

definition createCategoryValidation :: "validation_chain list" where
  "createCategoryValidation =
     [body ''name''
        [Check Exists_checkFalsy ''Category name is required'',
         Check IsString ''Category name must be a string'',
         Check (IsLength 2 (Some 100)) ''Category name must be between 2 and 100 characters''],
      body ''type''
        [Check Exists_checkFalsy ''Type is required'',
         Check IsString ''Type must be a string'',
         Check (IsIn [''product'', ''blog'']) ''Type must be either product or blog''],
      body ''description''
        [Optional,
         Check IsString ''Description must be a string'',
         Check (IsLength 0 (Some 500)) ''Description cannot exceed 500 characters''],
      body ''parent''
        [Optional,
         Check IsMongoId ''Parent must be a valid category ID'']]"

definition updateCategoryValidation :: "validation_chain list" where
  "updateCategoryValidation =
     [body ''name''
        [Optional,
         Check IsString ''Category name must be a string'',
         Check (IsLength 2 (Some 100)) ''Category name must be between 2 and 100 characters''],
      body ''type''
        [Optional,
         Check IsString ''Type must be a string'',
         Check (IsIn [''product'', ''blog'']) ''Type must be either product or blog''],
      body ''description''
        [Optional,
         Check IsString ''Description must be a string'',
         Check (IsLength 0 (Some 500)) ''Description cannot exceed 500 characters''],
      body ''parent''
        [Optional,
         Check IsMongoId ''Parent must be a valid category ID''],
      body ''isActive''
        [Optional,
         Check IsBoolean ''isActive must be a boolean value'']]"

definition idValidation :: "validation_chain" where
  \<comment> \<open>\<open>param('id').isMongoId().withMessage('Invalid category ID')\<close>\<close>
  "idValidation = param ''id'' [Check IsMongoId ''Invalid category ID'']"

subsection \<open>The routing table\<close>

datatype http_method = GET | POST | PUT | DELETE

datatype controller =
  GetAllCategories | GetCategoryById | CreateCategory | UpdateCategory | DeleteCategory

datatype handler =
    AuthMiddleware
  | AdminMiddleware "string list"
  | Validation validation_chain
  | ValidateMiddleware
  | Controller controller

record route =
  route_method :: http_method
  route_path :: string
  handlers :: "handler list"

text \<open>
  Modelled from the spec: the constants of constants/userRoles.js (not under src/);
  sections 2 and 6 of the spec name the two roles of the gate, admin and super-admin.
\<close>

definition ADMIN :: string where
  "ADMIN = ''admin''"

definition SUPER_ADMIN :: string where
  "SUPER_ADMIN = ''super-admin''"

definition get_categories :: route where
  "get_categories =
     \<lparr>route_method = GET, route_path = ''/'',
      handlers = [Controller GetAllCategories]\<rparr>"

definition get_category_by_id :: route where
  "get_category_by_id =
     \<lparr>route_method = GET, route_path = ''/:id'',
      handlers = [Validation idValidation, ValidateMiddleware, Controller GetCategoryById]\<rparr>"

definition post_category :: route where
  "post_category =
     \<lparr>route_method = POST, route_path = ''/'',
      handlers =
        [AuthMiddleware, AdminMiddleware [ADMIN, SUPER_ADMIN]] @
        map Validation createCategoryValidation @
        [ValidateMiddleware, Controller CreateCategory]\<rparr>"

definition put_category :: route where
  "put_category =
     \<lparr>route_method = PUT, route_path = ''/:id'',
      handlers =
        [AuthMiddleware, AdminMiddleware [ADMIN, SUPER_ADMIN]] @
        map Validation (idValidation # updateCategoryValidation) @
        [ValidateMiddleware, Controller UpdateCategory]\<rparr>"

definition delete_category :: route where
  "delete_category =
     \<lparr>route_method = DELETE, route_path = ''/:id'',
      handlers =
        [AuthMiddleware, AdminMiddleware [ADMIN, SUPER_ADMIN],
         Validation idValidation, ValidateMiddleware, Controller DeleteCategory]\<rparr>"

definition router :: "route list" where
  "router = [get_categories, get_category_by_id, post_category, put_category, delete_category]"

subsection \<open>Running a route\<close>

datatype response =
    AuthorizationFailure
  | ValidationErrors "validation_error list"
  | Success string
  | Failure nat string

datatype outcome = Next request | Respond response

text \<open>
  The handlers whose code is not under src/ (the three middleware modules and the
  category controller) are the fields of an environment. A middleware passes the
  request on or answers it; a controller answers it and may change the store \<open>'s\<close>.
\<close>

record 's env =
  auth_mw :: "request \<Rightarrow> outcome"
  admin_mw :: "string list \<Rightarrow> request \<Rightarrow> outcome"
  validate_mw :: "request \<Rightarrow> outcome"
  controller_fn :: "controller \<Rightarrow> request \<Rightarrow> 's \<Rightarrow> response \<times> 's"

definition middleware :: "'s env \<Rightarrow> handler \<Rightarrow> request \<Rightarrow> outcome" where
  "middleware e h req =
     (case h of
        AuthMiddleware \<Rightarrow> auth_mw e req
      | AdminMiddleware roles \<Rightarrow> admin_mw e roles req
      | Validation c \<Rightarrow> Next (req\<lparr>req_errors := req_errors req @ run_chain c req\<rparr>)
      | ValidateMiddleware \<Rightarrow> validate_mw e req
      | Controller c \<Rightarrow> Next req)"

text \<open>
  Express runs the handlers of a route in the order of the call that registered them.
  The result is the list of handlers that ran, the response (none when the last handler
  passed the request on, which leaves the router), and the store.
\<close>

fun run_handlers ::
  "'s env \<Rightarrow> handler list \<Rightarrow> request \<Rightarrow> 's \<Rightarrow> handler list \<times> response option \<times> 's" where
  "run_handlers e [] req st = ([], None, st)"
| "run_handlers e (Controller c # hs) req st =
     (case controller_fn e c req st of (r, st') \<Rightarrow> ([Controller c], Some r, st'))"
| "run_handlers e (h # hs) req st =
     (case middleware e h req of
        Respond r \<Rightarrow> ([h], Some r, st)
      | Next req' \<Rightarrow>
          (case run_handlers e hs req' st of (done_hs, r, st') \<Rightarrow> (h # done_hs, r, st')))"

definition run_route :: "'s env \<Rightarrow> route \<Rightarrow> request \<Rightarrow> 's \<Rightarrow> handler list \<times> response option \<times> 's" where
  "run_route e r req st = run_handlers e (handlers r) req st"

text \<open>The stage a handler belongs to, and the stages of a chain in order, each once.\<close>

datatype stage = AuthStage | RoleStage | ValidationStage | ControllerStage

fun stage_of :: "handler \<Rightarrow> stage" where
  "stage_of AuthMiddleware = AuthStage"
| "stage_of (AdminMiddleware roles) = RoleStage"
| "stage_of (Validation c) = ValidationStage"
| "stage_of ValidateMiddleware = ValidationStage"
| "stage_of (Controller c) = ControllerStage"

definition stage_order :: "handler list \<Rightarrow> stage list" where
  "stage_order hs = remdups_adj (map stage_of hs)"

subsection \<open>The middleware modules, from the spec\<close>

text \<open>
  Modelled from the spec: \<open>authMiddleware\<close> (middleware/authMiddleware.js, not under src/).
  Section 6: the authentication identity provider yields the identity, with its role, on
  the request; \<open>req_user\<close> is what it yields. A request with no identity does not proceed.
\<close>

definition authMiddleware :: "request \<Rightarrow> outcome" where
  "authMiddleware req =
     (case req_user req of None \<Rightarrow> Respond AuthorizationFailure | Some u \<Rightarrow> Next req)"

text \<open>
  Modelled from the spec: \<open>adminMiddleware\<close> (middleware/adminMiddleware.js, not under src/).
  Section 4.3: "given a request's authenticated identity and a required role set, allow
  the request to proceed only if the identity's role is a member of the required set;
  otherwise reject with an authorization-failure signal".
\<close>

definition adminMiddleware :: "string list \<Rightarrow> request \<Rightarrow> outcome" where
  "adminMiddleware roles req =
     (case req_user req of
        None \<Rightarrow> Respond AuthorizationFailure
      | Some u \<Rightarrow> if role u \<in> set roles then Next req else Respond AuthorizationFailure)"

text \<open>
  Modelled from the spec: \<open>validateMiddleware\<close> (middleware/validateMiddleware.js, not under
  src/). Section 4.1: it "short-circuits the request pipeline with a 4xx-style structured
  error response (field to message mapping) if any rule fails; otherwise passes control
  to the next stage unchanged".
\<close>

definition validateMiddleware :: "request \<Rightarrow> outcome" where
  "validateMiddleware req =
     (if req_errors req = [] then Next req else Respond (ValidationErrors (req_errors req)))"

definition spec_env :: "(controller \<Rightarrow> request \<Rightarrow> 's \<Rightarrow> response \<times> 's) \<Rightarrow> 's env" where
  "spec_env ctrl =
     \<lparr>auth_mw = authMiddleware, admin_mw = adminMiddleware,
      validate_mw = validateMiddleware, controller_fn = ctrl\<rparr>"

section \<open>The constraints of the spec, and example data\<close>

text \<open>
  The length of a string in characters, for the bounds of section 3 of the spec: a
  surrogate pair is one character, and the variation selectors U+FE0E and U+FE0F are
  not counted.
\<close>

fun characters :: "js_string \<Rightarrow> nat" where
  "characters [] = 0"
| "characters [u] = (if variation_selector u then 0 else 1)"
| "characters (h # l # rest) =
     (if high_surrogate h \<and> low_surrogate l then Suc (characters rest)
      else (if variation_selector h then 0 else 1) + characters (l # rest))"

text \<open>
  A Mongo-style ObjectId string is 24 hexadecimal digits; the id check also lets pass the
  texts that are \<open>0x\<close> or \<open>0h\<close> and 22 hexadecimal digits.
\<close>

definition objectid_string :: "js_string \<Rightarrow> bool" where
  "objectid_string s = (length s = 24 \<and> list_all is_hex_digit s)"

definition prefixed_hex22 :: "js_string \<Rightarrow> bool" where
  "prefixed_hex22 s = (hex_prefix s \<and> length s = 24 \<and> list_all is_hex_digit (drop 2 s))"

definition id_text :: "js_string \<Rightarrow> bool" where
  "id_text s = (objectid_string s \<or> prefixed_hex22 s)"






definition body_error :: "string \<Rightarrow> string \<Rightarrow> validation_error" where
  "body_error f m = \<lparr>err_location = Body, err_path = f, err_msg = m\<rparr>"

definition id_error :: validation_error where
  "id_error = \<lparr>err_location = Param, err_path = ''id'', err_msg = ''Invalid category ID''\<rparr>"

text \<open>
  A run ends in the rejection of an invalid id when its response is the validation
  failure that holds \<open>id_error\<close>; the controller ran when a controller is among the
  handlers that ran.
\<close>

definition rejects_invalid_id :: "handler list \<times> response option \<times> 's \<Rightarrow> bool" where
  "rejects_invalid_id res =
     (case fst (snd res) of
        Some (ValidationErrors errs) \<Rightarrow> id_error \<in> set errs
      | _ \<Rightarrow> False)"

definition controller_ran :: "handler list \<times> response option \<times> 's \<Rightarrow> bool" where
  "controller_ran res = list_ex (\<lambda>h. stage_of h = ControllerStage) (fst res)"

text \<open>The identities the role gate lets pass, and the handlers of the gate.\<close>

definition admin_identity :: "request \<Rightarrow> bool" where
  "admin_identity req =
     (case req_user req of
        None \<Rightarrow> False
      | Some u \<Rightarrow> role u = ''admin'' \<or> role u = ''super-admin'')"

definition gate :: "handler list" where
  "gate = [AuthMiddleware, AdminMiddleware [ADMIN, SUPER_ADMIN]]"

definition cold_brew_coffee :: product where
  "cold_brew_coffee =
     \<lparr>title = Some ''Cold Brew Coffee'',
      description = Some ''Slow-steeped coffee concentrate'',
      discountPercentage = Some 10,
      brand = Some ''10X'',
      slug = None,
      rating = Some 0,
      category = Some ''Beverages'',
      thumbnail = Some ''https://cdn.example.com/cold-brew.png'',
      images = [''https://cdn.example.com/cold-brew-1.jpg''],
      productBG = Some ''https://cdn.example.com/cold-brew-bg.jpg'',
      variants = [\<lparr>size_v = Some ''250ml'', price = Some 12, stock = Some 40\<rparr>],
      packaging = [''Bottle''],
      accordion = Some \<lparr>details = Some ''Arabica'', shipping = Some ''Ships chilled'',
                         returns = Some ''No returns''\<rparr>,
      tags = [],
      isActive = True,
      createdAt = 0\<rparr>"

text \<open>Exact arithmetic on rationals, as one reading of the operators.\<close>

definition rational_operators :: "rat operators" where
  "rational_operators =
     \<lparr>minus_op = (\<lambda>a b. a - b), times_op = (\<lambda>a b. a * b), divide_op = (\<lambda>a b. a / b),
      literal_100 = 100\<rparr>"

definition two_variants :: "(string, rat) this_values" where
  "two_variants =
     \<lparr>this_variants =
        [\<lparr>variant_size = ''250ml'', variant_price = 12\<rparr>,
         \<lparr>variant_size = ''1l'', variant_price = 40\<rparr>],
      this_discountPercentage = 10\<rparr>"

definition customer :: user where
  "customer = \<lparr>user_id = ''u-17'', role = ''customer''\<rparr>"

definition administrator :: user where
  "administrator = \<lparr>user_id = ''u-1'', role = ''admin''\<rparr>"

definition body_request :: "user option \<Rightarrow> (string \<rightharpoonup> jsval) \<Rightarrow> request" where
  "body_request u b = \<lparr>req_params = Map.empty, req_body = b, req_user = u, req_errors = []\<rparr>"

definition create_request :: "user \<Rightarrow> js_string \<Rightarrow> request" where
  "create_request u n =
     body_request (Some u) [''name'' \<mapsto> JStr n, ''type'' \<mapsto> JStr (js ''product'')]"

definition id_request :: "user option \<Rightarrow> js_string \<Rightarrow> request" where
  "id_request u i =
     \<lparr>req_params = [''id'' \<mapsto> i],
      req_body = Map.empty,
      req_user = u,
      req_errors = []\<rparr>"



text \<open>
  A name of 101 code units that the length check counts as 100 characters: a hundred
  letters and the variation selector U+FE0F.
\<close>

definition long_name :: js_string where
  "long_name = replicate 100 97 @ [65039]"

text \<open>A controller that counts its calls in the store, to run the routes on.\<close>

definition counting_controller :: "controller \<Rightarrow> request \<Rightarrow> nat \<Rightarrow> response \<times> nat" where
  "counting_controller c req n = (Success ''done'', Suc n)"

section \<open>Properties of the slug derivation\<close>

lemma strict_char_lower: "strict_char c \<Longrightarrow> slug_char (toLowerCase_char c)"
  unfolding strict_char_def slug_char_def is_alnum_def is_upper_def is_lower_def is_digit_def
    toLowerCase_char_def Let_def
  by (auto simp: of_char_of)

lemma slug_char_lower_id: "slug_char c \<Longrightarrow> toLowerCase_char c = c"
  unfolding slug_char_def is_lower_def is_digit_def toLowerCase_char_def Let_def
  by auto

lemma slug_char_not_space: "slug_char c \<Longrightarrow> \<not> is_space c"
  unfolding slug_char_def is_lower_def is_digit_def is_space_def Let_def
  by auto

lemma slug_char_strict: "slug_char c \<Longrightarrow> strict_char c"
  by (auto simp: slug_char_def strict_char_def is_alnum_def)

lemma list_all_trim: "list_all P s \<Longrightarrow> list_all P (trim s)"
proof -
  assume a: "list_all P s"
  have "x \<in> set s" if "x \<in> set (trim s)" for x
  proof -
    from that have "x \<in> set (dropWhile is_space (rev (dropWhile is_space s)))"
      by (simp add: trim_def)
    then have "x \<in> set (rev (dropWhile is_space s))" by (rule set_dropWhileD)
    then have "x \<in> set (dropWhile is_space s)" by simp
    then show ?thesis by (rule set_dropWhileD)
  qed
  with a show ?thesis by (auto simp: list_all_iff)
qed

lemma hyphenate_strict:
  "list_all (\<lambda>c. is_alnum c \<or> is_space c) s \<Longrightarrow> list_all strict_char (hyphenate b s)"
  by (induction s arbitrary: b) (auto simp: strict_char_def)

lemma slugify_slug_charset: "slug_charset (slugify tr str)"
proof -
  let ?kept = "filter (\<lambda>c. is_alnum c \<or> is_space c) (concat (map tr str))"
  have "list_all (\<lambda>c. is_alnum c \<or> is_space c) ?kept"
    by (simp add: list_all_iff)
  then have "list_all strict_char (hyphenate False (trim ?kept))"
    by (intro hyphenate_strict list_all_trim)
  then show ?thesis
    unfolding slugify_def slug_charset_def toLowerCase_def
    by (simp add: list_all_iff strict_char_lower)
qed

lemma slugify_strict_charset: "strict_charset (slugify tr str)"
  using slugify_slug_charset [of tr str]
  by (auto simp: slug_charset_def strict_charset_def list_all_iff slug_char_strict)

lemma slug_setters_charset: "strict_charset v \<Longrightarrow> slug_charset (slug_setters v)"
  unfolding slug_setters_def slug_charset_def strict_charset_def toLowerCase_def
  by (intro list_all_trim) (simp add: list_all_iff strict_char_lower)

lemma trim_no_space: "list_all (\<lambda>c. \<not> is_space c) s \<Longrightarrow> trim s = s"
proof -
  assume a: "list_all (\<lambda>c. \<not> is_space c) s"
  have d: "dropWhile is_space xs = xs" if "list_all (\<lambda>c. \<not> is_space c) xs" for xs
    using that by (cases xs) auto
  have "list_all (\<lambda>c. \<not> is_space c) (rev s)" using a by (simp add: list_all_iff)
  then show ?thesis unfolding trim_def using a by (simp add: d)
qed

lemma slug_setters_id: "slug_charset s \<Longrightarrow> slug_setters s = s"
proof -
  assume a: "slug_charset s"
  then have l: "toLowerCase s = s"
    unfolding slug_charset_def toLowerCase_def
    by (simp add: list_all_iff map_idI slug_char_lower_id)
  have "list_all (\<lambda>c. \<not> is_space c) s"
    using a unfolding slug_charset_def by (auto simp: list_all_iff slug_char_not_space)
  then show ?thesis unfolding slug_setters_def l by (rule trim_no_space)
qed

lemma slugify_untouched:
  "list_all (\<lambda>c. tr c = [c]) str \<Longrightarrow> slugify tr str = slugify (\<lambda>c. [c]) str"
proof -
  assume "list_all (\<lambda>c. tr c = [c]) str"
  then have "map tr str = map (\<lambda>c. [c]) str" by (simp add: list_all_iff)
  then show ?thesis unfolding slugify_def by (simp only:)
qed

lemma slugify_cold_brew: "slugify (\<lambda>c. [c]) ''Cold Brew Coffee'' = ''cold-brew-coffee''"
  by code_simp

lemma validate_path_Nil: "validate_path p checks = [] \<longleftrightarrow> list_all fst checks"
  unfolding validate_path_def
  by (induction checks) (auto split: list.splits)

lemma save_Inr:
  "save tag_ids f doc = Inr doc' \<Longrightarrow> validate tag_ids doc = [] \<and> pre_save f doc = Inr doc'"
  by (auto simp: save_def split: list.splits)

text \<open>
  C3. When a Product with a title and no slug goes through the pre-save hook, the slug it
  gets is the slugify text of the title (lowercased, punctuation stripped, whitespace
  runs turned into single hyphens; the setters of the slug path change nothing of it).
  For the title "Cold Brew Coffee", under every transliteration table that leaves the
  characters of this title alone, the slug is "cold-brew-coffee".
\<close>

theorem cold_brew_coffee_slug:
  "(title doc = Some t \<and> no_slug doc \<longrightarrow>
      pre_save (slugify tr) doc = Inr (doc\<lparr>slug := Some (slugify tr t)\<rparr>)) \<and>
   (title doc = Some ''Cold Brew Coffee'' \<and> no_slug doc \<and>
    list_all (\<lambda>c. tr c = [c]) ''Cold Brew Coffee'' \<longrightarrow>
      pre_save (slugify tr) doc = Inr (doc\<lparr>slug := Some ''cold-brew-coffee''\<rparr>))"
proof -
  have general: "pre_save (slugify tr) d = Inr (d\<lparr>slug := Some (slugify tr u)\<rparr>)"
    if "title d = Some u" "no_slug d" for d u
    using that by (simp add: pre_save_def slug_setters_id slugify_slug_charset)
  have "slugify tr ''Cold Brew Coffee'' = ''cold-brew-coffee''"
    if "list_all (\<lambda>c. tr c = [c]) ''Cold Brew Coffee''"
    using slugify_untouched [OF that] slugify_cold_brew by simp
  with general show ?thesis by auto
qed

text \<open>The hook run on the example product, with the table that changes no character.\<close>

theorem cold_brew_coffee_slug_witness:
  "pre_save (slugify (\<lambda>c. [c])) cold_brew_coffee =
     Inr (cold_brew_coffee\<lparr>slug := Some ''cold-brew-coffee''\<rparr>)"
proof -
  have h: "title cold_brew_coffee = Some ''Cold Brew Coffee'' \<and> no_slug cold_brew_coffee \<and>
      list_all (\<lambda>c. [c] = [c]) ''Cold Brew Coffee''"
    by (simp add: cold_brew_coffee_def no_slug_def)
  from cold_brew_coffee_slug [of cold_brew_coffee _ "\<lambda>c. [c]", THEN conjunct2, rule_format, OF h]
  show ?thesis .
qed

text \<open>
  C4. The pre-save hook is idempotent and the derivation deterministic, whatever function
  slugify is: running the hook on its own result changes nothing; a Product whose slug is
  set (not empty) leaves the hook, and a save, unchanged; and two Products with the same
  title and no slug get the same slug.
\<close>

theorem pre_save_idempotent:
  "(pre_save f doc = Inr doc' \<longrightarrow> pre_save f doc' = Inr doc') \<and>
   (\<not> no_slug doc \<longrightarrow> pre_save f doc = Inr doc) \<and>
   (\<not> no_slug doc \<and> save tag_ids f doc = Inr doc' \<longrightarrow> doc' = doc) \<and>
   (title d1 = title d2 \<and> no_slug d1 \<and> no_slug d2 \<and>
    pre_save f d1 = Inr e1 \<and> pre_save f d2 = Inr e2 \<longrightarrow> slug e1 = slug e2)"
proof -
  have twice: "pre_save f doc = Inr doc' \<longrightarrow> pre_save f doc' = Inr doc'"
    by (auto simp: pre_save_def no_slug_def split: if_splits option.splits)
  have keeps: "\<not> no_slug doc \<longrightarrow> pre_save f doc = Inr doc"
    by (simp add: pre_save_def)
  have resave: "\<not> no_slug doc \<and> save tag_ids f doc = Inr doc' \<longrightarrow> doc' = doc"
    using keeps by (auto dest: save_Inr)
  have same: "title d1 = title d2 \<and> no_slug d1 \<and> no_slug d2 \<and>
      pre_save f d1 = Inr e1 \<and> pre_save f d2 = Inr e2 \<longrightarrow> slug e1 = slug e2"
    by (auto simp: pre_save_def split: option.splits)
  from twice keeps resave same show ?thesis by blast
qed

text \<open>
  The example product saved once, then again with its slug set, then with another brand.
\<close>

theorem pre_save_idempotent_witness:
  "pre_save (slugify (\<lambda>c. [c])) cold_brew_coffee =
     Inr (cold_brew_coffee\<lparr>slug := Some ''cold-brew-coffee''\<rparr>) \<and>
   pre_save (slugify (\<lambda>c. [c])) (cold_brew_coffee\<lparr>slug := Some ''cold-brew-coffee''\<rparr>) =
     Inr (cold_brew_coffee\<lparr>slug := Some ''cold-brew-coffee''\<rparr>) \<and>
   save [] (slugify (\<lambda>c. [c])) (cold_brew_coffee\<lparr>slug := Some ''cold-brew-coffee''\<rparr>) =
     Inr (cold_brew_coffee\<lparr>slug := Some ''cold-brew-coffee''\<rparr>) \<and>
   pre_save (slugify (\<lambda>c. [c])) (cold_brew_coffee\<lparr>brand := Some ''Other''\<rparr>) =
     Inr (cold_brew_coffee\<lparr>brand := Some ''Other'', slug := Some ''cold-brew-coffee''\<rparr>) \<and>
   slug (cold_brew_coffee\<lparr>brand := Some ''Other'', slug := Some ''cold-brew-coffee''\<rparr>) =
     slug (cold_brew_coffee\<lparr>slug := Some ''cold-brew-coffee''\<rparr>)"
proof -
  let ?f = "slugify (\<lambda>c. [c])"
  let ?saved = "cold_brew_coffee\<lparr>slug := Some ''cold-brew-coffee''\<rparr>"
  let ?other = "cold_brew_coffee\<lparr>brand := Some ''Other''\<rparr>"
  let ?other_saved = "cold_brew_coffee\<lparr>brand := Some ''Other'', slug := Some ''cold-brew-coffee''\<rparr>"
  have first: "pre_save ?f cold_brew_coffee = Inr ?saved"
    by code_simp
  have other: "pre_save ?f ?other = Inr ?other_saved"
    by code_simp
  have resave: "save [] ?f ?saved = Inr ?saved"
    by code_simp
  have has_slug: "\<not> no_slug ?saved"
    by (simp add: no_slug_def)
  have same: "title cold_brew_coffee = title ?other \<and> no_slug cold_brew_coffee \<and> no_slug ?other"
    by (simp add: no_slug_def cold_brew_coffee_def)
  note idem = pre_save_idempotent [where f = ?f and tag_ids = "[]"]
  from idem [of cold_brew_coffee ?saved, THEN conjunct1, rule_format, OF first]
  have twice: "pre_save ?f ?saved = Inr ?saved" .
  from idem [of ?saved, THEN conjunct2, THEN conjunct1, rule_format, OF has_slug]
  have kept: "pre_save ?f ?saved = Inr ?saved" .
  from idem [of _ _ cold_brew_coffee ?other ?saved ?other_saved,
      THEN conjunct2, THEN conjunct2, THEN conjunct2, rule_format] same first other
  have eq: "slug ?saved = slug ?other_saved" by blast
  from first twice kept resave other eq show ?thesis by simp
qed

section \<open>Properties of the Product schema\<close>

text \<open>
  C8. The virtual \<open>discountedPrices\<close> (computed by the getter from the document, not one
  of its stored paths) has one entry per variant, in the order of the variants; entry
  \<open>i\<close> carries the size of variant \<open>i\<close> and the value of
  \<open>price - (price * discountPercentage) / 100\<close> for the price of variant \<open>i\<close>, computed with
  the operators of the program, whatever they give.
\<close>

theorem discountedPrices_per_variant:
  "length (discountedPrices ops this) = length (this_variants this) \<and>
   map size_d (discountedPrices ops this) = map variant_size (this_variants this) \<and>
   (i < length (this_variants this) \<longrightarrow>
      size_d (discountedPrices ops this ! i) = variant_size (this_variants this ! i) \<and>
      discountedPrice (discountedPrices ops this ! i) =
        minus_op ops (variant_price (this_variants this ! i))
          (divide_op ops
             (times_op ops (variant_price (this_variants this ! i))
                (this_discountPercentage this))
             (literal_100 ops)))"
  by (simp add: discountedPrices_def comp_def)

text \<open>
  Two variants of prices 12 and 40 at a discount of 10 percent, in exact arithmetic.
\<close>

theorem discountedPrices_per_variant_witness:
  "length (discountedPrices rational_operators two_variants) = 2 \<and>
   map size_d (discountedPrices rational_operators two_variants) = [''250ml'', ''1l''] \<and>
   discountedPrice (discountedPrices rational_operators two_variants ! 1) = 36"
proof -
  have h: "this_variants two_variants =
      [\<lparr>variant_size = ''250ml'', variant_price = 12\<rparr>,
       \<lparr>variant_size = ''1l'', variant_price = 40\<rparr>]"
    "this_discountPercentage two_variants = 10"
    by (simp_all add: two_variants_def)
  from discountedPrices_per_variant [of rational_operators two_variants 1] h
  show ?thesis by (simp add: rational_operators_def)
qed

text \<open>
  C2. Validation is to reject a Product whose \<open>images\<close> list is empty, as it rejects one
  whose \<open>variants\<close> list is empty. The schema does not: \<open>arrayLimit\<close> is attached to the
  strings of \<open>images\<close>, not to the list, so the example product with no image passes
  validation, whatever the Tag collection holds, and is saved.
\<close>

theorem empty_images_accepted:
  "images (cold_brew_coffee\<lparr>images := []\<rparr>) = [] \<and>
   validate tag_ids (cold_brew_coffee\<lparr>images := []\<rparr>) = [] \<and>
   save tag_ids (slugify (\<lambda>c. [c])) (cold_brew_coffee\<lparr>images := []\<rparr>) =
     Inr (cold_brew_coffee\<lparr>images := [], slug := Some ''cold-brew-coffee''\<rparr>)"
  by code_simp

text \<open>The sibling path: an empty \<open>variants\<close> list is rejected, and the save fails.\<close>

lemma empty_variants_rejected:
  "variants doc = [] \<Longrightarrow>
   (Field ''variants'', Custom ''{PATH} must have at least one variant'') \<in> set (validate tag_ids doc) \<and>
   (\<exists>errs. save tag_ids f doc = Inl (ValidationError errs))"
  by (auto simp add: validate_def arrayLimit_def required_array_def validate_path_def save_def
      split: list.splits)

section \<open>The character set of slugs\<close>

text \<open>
  C9. For a Product with a title and no slug, the pre-save hook stores the result of
  slugify after the setters of the slug path (lowercase, trim). Whenever the result of
  slugify holds only what its \<open>strict\<close> option leaves (letters, digits, hyphens), the
  stored slug holds only \<open>[a-z0-9-]\<close>; so does the slug of every Product that is saved
  without a slug of its own. A slug that the Product already carries is not covered:
  the hook keeps it as it is.
\<close>

theorem derived_slug_charset:
  "no_slug doc \<Longrightarrow> title doc = Some t \<Longrightarrow> strict_charset (f t) \<Longrightarrow>
   pre_save f doc = Inr (doc\<lparr>slug := Some (slug_setters (f t))\<rparr>) \<and>
   slug_charset (slug_setters (f t)) \<and>
   (save tag_ids f doc = Inr doc' \<longrightarrow> (\<exists>s. slug doc' = Some s \<and> slug_charset s))"
proof -
  assume a: "no_slug doc" "title doc = Some t" "strict_charset (f t)"
  then have hook: "pre_save f doc = Inr (doc\<lparr>slug := Some (slug_setters (f t))\<rparr>)"
    by (simp add: pre_save_def)
  have cs: "slug_charset (slug_setters (f t))"
    using a(3) by (rule slug_setters_charset)
  have "\<exists>s. slug doc' = Some s \<and> slug_charset s" if "save tag_ids f doc = Inr doc'"
  proof -
    from save_Inr [OF that] hook have "doc' = doc\<lparr>slug := Some (slug_setters (f t))\<rparr>"
      by simp
    with cs show ?thesis by simp
  qed
  with hook cs show ?thesis by blast
qed

text \<open>The example product, saved with the slugify of section 4.2 of the spec.\<close>

theorem derived_slug_charset_witness:
  "save [] (slugify (\<lambda>c. [c])) cold_brew_coffee =
     Inr (cold_brew_coffee\<lparr>slug := Some ''cold-brew-coffee''\<rparr>) \<and>
   slug_charset ''cold-brew-coffee''"
proof -
  let ?f = "slugify (\<lambda>c. [c])"
  have h: "no_slug cold_brew_coffee" "title cold_brew_coffee = Some ''Cold Brew Coffee''"
    by (simp_all add: cold_brew_coffee_def no_slug_def)
  have c: "strict_charset (?f ''Cold Brew Coffee'')"
    by (rule slugify_strict_charset)
  have v: "validate [] cold_brew_coffee = []"
    by code_simp
  have s: "slug_setters (?f ''Cold Brew Coffee'') = ''cold-brew-coffee''"
    by code_simp
  from derived_slug_charset [where f = ?f and tag_ids = "[]", OF h c] v s show ?thesis
    by (simp add: save_def)
qed

text \<open>
  A Product that brings the slug \<open>cold_brew\<close> passes validation and the hook keeps the
  slug: a saved slug with an underscore, outside \<open>[a-z0-9-]\<close>.
\<close>

theorem explicit_slug_kept:
  "save [] (slugify (\<lambda>c. [c])) (cold_brew_coffee\<lparr>slug := Some ''cold_brew''\<rparr>) =
     Inr (cold_brew_coffee\<lparr>slug := Some ''cold_brew''\<rparr>) \<and>
   \<not> slug_charset ''cold_brew''"
  by code_simp

section \<open>Properties of the category validation rules\<close>

lemma surrogate_not_selector: "high_surrogate u \<Longrightarrow> \<not> variation_selector u"
  "low_surrogate u \<Longrightarrow> \<not> variation_selector u"
  by (auto simp: high_surrogate_def low_surrogate_def variation_selector_def)

lemma length_characters:
  "length s = characters s + length (filter variation_selector s) + surrogate_pairs s"
  by (induction s rule: characters.induct) (auto simp: surrogate_not_selector)

lemma isLength_characters:
  "isLength mn mx s =
     (mn \<le> characters s \<and> (case mx of None \<Rightarrow> True | Some m \<Rightarrow> characters s \<le> m))"
  by (simp add: isLength_def Let_def length_characters [of s])

lemma hex_prefix_not_hex: "hex_prefix s \<Longrightarrow> \<not> list_all is_hex_digit s"
  by (auto simp: hex_prefix_def is_hex_digit_def split: list.splits)

lemma isMongoId_id_text: "isMongoId s = id_text s"
proof (cases "hex_prefix s")
  case True
  then have "length s = 24 \<Longrightarrow> drop 2 s \<noteq> []" by auto
  with True show ?thesis
    using hex_prefix_not_hex [OF True]
    by (auto simp: isMongoId_def isHexadecimal_def id_text_def objectid_string_def
        prefixed_hex22_def)
next
  case False
  then show ?thesis
    by (auto simp: isMongoId_def isHexadecimal_def id_text_def objectid_string_def
        prefixed_hex22_def)
qed

lemmas chain_defs = run_chain_def body_def select_field_def run_item_def body_error_def
  standard_values_def shallow_text_def is_string_def















lemma characters_plain:
  "list_all (\<lambda>u. \<not> high_surrogate u \<and> \<not> variation_selector u) s \<Longrightarrow>
   characters (s @ t) = length s + characters t"
proof (induction s)
  case Nil
  then show ?case by simp
next
  case (Cons u s)
  then show ?case by (cases "s @ t") auto
qed

lemma characters_long_name: "length long_name = 101 \<and> characters long_name = 100"
proof -
  have "list_all (\<lambda>u. \<not> high_surrogate u \<and> \<not> variation_selector u)
      (replicate 100 (97 :: code_unit))"
    by (simp add: list_all_iff high_surrogate_def variation_selector_def)
  from characters_plain [OF this, of "[65039]"] show ?thesis
    by (simp add: long_name_def variation_selector_def)
qed

lemma long_name_valid:
  "req_body req ''name'' = Some (JStr long_name) \<Longrightarrow>
   req_body req ''type'' = Some (JStr (js ''product'')) \<Longrightarrow>
   req_body req ''description'' = None \<Longrightarrow> req_body req ''parent'' = None \<Longrightarrow>
   validationResult createCategoryValidation req = []"
proof -
  assume a: "req_body req ''name'' = Some (JStr long_name)"
    "req_body req ''type'' = Some (JStr (js ''product''))"
    "req_body req ''description'' = None" "req_body req ''parent'' = None"
  have "long_name \<noteq> []" by (simp add: long_name_def)
  with a show ?thesis
    by (simp add: validationResult_def createCategoryValidation_def chain_defs
        isLength_characters characters_long_name js_def)
qed


lemma name_length_error:
  "req_body req ''name'' = Some (JStr s) \<Longrightarrow> characters s < 2 \<or> 100 < characters s \<Longrightarrow>
   body_error ''name'' ''Category name must be between 2 and 100 characters''
     \<in> set (validationResult createCategoryValidation req)"
  by (auto simp add: validationResult_def createCategoryValidation_def chain_defs
      isLength_characters)

section \<open>Properties of the category routes\<close>

lemma run_chain_errors_upd [simp]: "run_chain c (req\<lparr>req_errors := x\<rparr>) = run_chain c req"
  by (cases "chain_location c") (simp_all add: run_chain_def select_field_def)

lemma validationResult_errors_upd [simp]:
  "validationResult cs (req\<lparr>req_errors := x\<rparr>) = validationResult cs req"
  by (simp add: validationResult_def)

lemma run_validations:
  "run_handlers e (map Validation cs @ rest) req st =
     (case run_handlers e rest (req\<lparr>req_errors := req_errors req @ validationResult cs req\<rparr>) st of
        (hs, r, st') \<Rightarrow> (map Validation cs @ hs, r, st'))"
proof (induction cs arbitrary: req)
  case Nil
  then show ?case by (simp add: validationResult_def split: prod.splits)
next
  case (Cons c cs)
  show ?case
    by (simp add: middleware_def Cons.IH validationResult_def split: prod.splits)
qed

lemma run_handlers_prefix: "prefix (fst (run_handlers e hs req st)) hs"
proof (induction e hs req st rule: run_handlers.induct)
  case (1 e req st)
  then show ?case by simp
next
  case (2 e c hs req st)
  then show ?case by (simp split: prod.splits)
qed (auto split: outcome.splits prod.splits)

lemma prefix_with_last:
  assumes "prefix xs ys" "list_ex P xs" "\<not> list_ex P (butlast ys)"
  shows "xs = ys"
proof -
  from assms(1) obtain zs where ys: "ys = xs @ zs" by (auto simp: prefix_def)
  show ?thesis
  proof (cases zs)
    case Nil
    with ys show ?thesis by simp
  next
    case (Cons z zs')
    with ys have "butlast ys = xs @ butlast zs" by (simp add: butlast_append)
    with assms(2,3) show ?thesis by (simp add: list_ex_iff)
  qed
qed

lemma validations_no_controller:
  "\<not> list_ex (\<lambda>h. stage_of h = ControllerStage) (map Validation cs)"
  by (simp add: list_ex_iff)

lemma mutating_routes:
  "r \<in> set router \<Longrightarrow> route_method r \<noteq> GET \<Longrightarrow>
   r = post_category \<or> r = put_category \<or> r = delete_category"
  by (auto simp: router_def get_categories_def get_category_by_id_def)

lemma stage_orders:
  "stage_order (handlers post_category) = [AuthStage, RoleStage, ValidationStage, ControllerStage]"
  "stage_order (handlers put_category) = [AuthStage, RoleStage, ValidationStage, ControllerStage]"
  "stage_order (handlers delete_category) = [AuthStage, RoleStage, ValidationStage, ControllerStage]"
  by (simp_all add: stage_order_def post_category_def put_category_def delete_category_def
      createCategoryValidation_def updateCategoryValidation_def)

lemma controller_last:
  "r = post_category \<or> r = put_category \<or> r = delete_category \<Longrightarrow>
   \<not> list_ex (\<lambda>h. stage_of h = ControllerStage) (butlast (handlers r))"
  by (auto simp: post_category_def put_category_def delete_category_def butlast_append
      list_ex_iff)

lemma gate_closed:
  assumes "req_user req = Some u" "role u \<noteq> ''admin''" "role u \<noteq> ''super-admin''"
  shows "run_handlers (spec_env ctrl) (AuthMiddleware # AdminMiddleware [ADMIN, SUPER_ADMIN] # hs) req st =
     ([AuthMiddleware, AdminMiddleware [ADMIN, SUPER_ADMIN]], Some AuthorizationFailure, st)"
  using assms
  by (simp add: spec_env_def middleware_def authMiddleware_def
      adminMiddleware_def ADMIN_def SUPER_ADMIN_def)

lemma gate_closed_anonymous:
  assumes "req_user req = None"
  shows "run_handlers (spec_env ctrl) (AuthMiddleware # hs) req st =
     ([AuthMiddleware], Some AuthorizationFailure, st)"
  using assms by (simp add: spec_env_def middleware_def authMiddleware_def)

lemma gate_open:
  assumes "admin_identity req"
  shows "run_handlers (spec_env ctrl) (AuthMiddleware # AdminMiddleware [ADMIN, SUPER_ADMIN] # hs) req st =
     (case run_handlers (spec_env ctrl) hs req st of
        (done_hs, r, st') \<Rightarrow> (AuthMiddleware # AdminMiddleware [ADMIN, SUPER_ADMIN] # done_hs, r, st'))"
  using assms
  by (auto simp add: admin_identity_def spec_env_def middleware_def authMiddleware_def
      adminMiddleware_def ADMIN_def SUPER_ADMIN_def split: prod.splits option.splits)

text \<open>
  With the middleware of the spec, a creation request of an administrator that passes the
  rules reaches the controller.
\<close>

lemma post_valid:
  assumes "admin_identity req" "validationResult createCategoryValidation req = []"
    "req_errors req = []"
  shows "run_route (spec_env ctrl) post_category req st =
     (handlers post_category, Some (fst (ctrl CreateCategory req st)),
      snd (ctrl CreateCategory req st))"
proof -
  have same: "req\<lparr>req_errors := req_errors req @ validationResult createCategoryValidation req\<rparr> = req"
    by (simp add: assms(2))
  show ?thesis
    unfolding run_route_def post_category_def
    by (simp add: gate_open [OF assms(1)] run_validations same
          del: run_handlers.simps map_append list.map)
       (simp add: middleware_def spec_env_def validateMiddleware_def assms(3) split: prod.splits)
qed

lemma tea_valid:
  "validationResult createCategoryValidation (create_request u (js ''Tea'')) = []"
  by (simp add: validationResult_def createCategoryValidation_def chain_defs create_request_def
      body_request_def isLength_characters js_def variation_selector_def high_surrogate_def
      low_surrogate_def)

lemma tea_created:
  "run_route (spec_env counting_controller) post_category
     (create_request administrator (js ''Tea'')) 0 =
   (handlers post_category, Some (Success ''done''), 1)"
proof -
  have "admin_identity (create_request administrator (js ''Tea''))"
    "req_errors (create_request administrator (js ''Tea'')) = []"
    by (simp_all add: admin_identity_def create_request_def body_request_def administrator_def)
  from post_valid [OF this(1) tea_valid this(2), of counting_controller 0] show ?thesis
    by (simp add: counting_controller_def)
qed

text \<open>
  C1. Every mutating category route (the routes of the router other than GET: POST /,
  PUT /:id, DELETE /:id) registers, in this order, \<open>authMiddleware\<close>, \<open>adminMiddleware\<close> for
  the roles \<open>USER_ROLES.ADMIN\<close> and \<open>USER_ROLES.SUPER_ADMIN\<close>, the validation chains of the
  route (the creation rules; the id check and the update rules; the id check),
  \<open>validateMiddleware\<close>, and the controller of the route. Whatever the middleware modules
  do, the handlers that run on a request are an initial part of that chain, in its
  order, and the controller runs only when every handler before it has run.
\<close>

theorem mutating_routes_stage_order:
  "r \<in> set router \<Longrightarrow> route_method r \<noteq> GET \<Longrightarrow>
   (route_method r = POST \<and> route_path r = ''/'' \<and>
      handlers r =
        [AuthMiddleware, AdminMiddleware [ADMIN, SUPER_ADMIN]] @
        map Validation createCategoryValidation @
        [ValidateMiddleware, Controller CreateCategory] \<or>
    route_method r = PUT \<and> route_path r = ''/:id'' \<and>
      handlers r =
        [AuthMiddleware, AdminMiddleware [ADMIN, SUPER_ADMIN]] @
        map Validation (idValidation # updateCategoryValidation) @
        [ValidateMiddleware, Controller UpdateCategory] \<or>
    route_method r = DELETE \<and> route_path r = ''/:id'' \<and>
      handlers r =
        [AuthMiddleware, AdminMiddleware [ADMIN, SUPER_ADMIN]] @
        map Validation [idValidation] @
        [ValidateMiddleware, Controller DeleteCategory]) \<and>
   map route_method (filter (\<lambda>x. route_method x \<noteq> GET) router) = [POST, PUT, DELETE] \<and>
   stage_order (handlers r) = [AuthStage, RoleStage, ValidationStage, ControllerStage] \<and>
   prefix (fst (run_route e r req st)) (handlers r) \<and>
   (controller_ran (run_route e r req st) \<longrightarrow> fst (run_route e r req st) = handlers r)"
proof -
  assume a: "r \<in> set router" "route_method r \<noteq> GET"
  from mutating_routes [OF a] have r: "r = post_category \<or> r = put_category \<or> r = delete_category" .
  then have table: "route_method r = POST \<and> route_path r = ''/'' \<and>
      handlers r =
        [AuthMiddleware, AdminMiddleware [ADMIN, SUPER_ADMIN]] @
        map Validation createCategoryValidation @
        [ValidateMiddleware, Controller CreateCategory] \<or>
    route_method r = PUT \<and> route_path r = ''/:id'' \<and>
      handlers r =
        [AuthMiddleware, AdminMiddleware [ADMIN, SUPER_ADMIN]] @
        map Validation (idValidation # updateCategoryValidation) @
        [ValidateMiddleware, Controller UpdateCategory] \<or>
    route_method r = DELETE \<and> route_path r = ''/:id'' \<and>
      handlers r =
        [AuthMiddleware, AdminMiddleware [ADMIN, SUPER_ADMIN]] @
        map Validation [idValidation] @
        [ValidateMiddleware, Controller DeleteCategory]"
    by (auto simp: post_category_def put_category_def delete_category_def)
  have methods: "map route_method (filter (\<lambda>x. route_method x \<noteq> GET) router) = [POST, PUT, DELETE]"
    by (simp add: router_def get_categories_def get_category_by_id_def post_category_def
        put_category_def delete_category_def)
  from r stage_orders
  have order: "stage_order (handlers r) = [AuthStage, RoleStage, ValidationStage, ControllerStage]"
    by auto
  have pre: "prefix (fst (run_route e r req st)) (handlers r)"
    unfolding run_route_def by (rule run_handlers_prefix)
  have whole: "fst (run_route e r req st) = handlers r" if "controller_ran (run_route e r req st)"
    using pre that controller_last [OF r] unfolding controller_ran_def
    by (rule prefix_with_last)
  from table methods order pre whole show ?thesis by blast
qed

text \<open>The POST route, run on a creation request of an administrator.\<close>

theorem mutating_routes_stage_order_witness:
  "post_category \<in> set router \<and> route_method post_category \<noteq> GET \<and>
   handlers post_category =
     [AuthMiddleware, AdminMiddleware [ADMIN, SUPER_ADMIN]] @
     map Validation createCategoryValidation @
     [ValidateMiddleware, Controller CreateCategory] \<and>
   fst (run_route (spec_env counting_controller) post_category
          (create_request administrator (js ''Tea'')) 0) = handlers post_category"
proof -
  have h: "post_category \<in> set router" "route_method post_category \<noteq> GET"
    by (simp_all add: router_def post_category_def)
  have ran: "controller_ran (run_route (spec_env counting_controller) post_category
      (create_request administrator (js ''Tea'')) 0)"
    by (simp only: tea_created) (simp add: controller_ran_def post_category_def)
  have m: "route_method post_category = POST"
    by (simp add: post_category_def)
  from mutating_routes_stage_order [OF h, of "spec_env counting_controller"
      "create_request administrator (js ''Tea'')" 0] h ran m
  show ?thesis by simp
qed

text \<open>
  The order validation, then authentication and role, then controller is not the order of
  any of the three chains: the first three handlers of the POST route are
  \<open>authMiddleware\<close>, \<open>adminMiddleware\<close> and the first validation chain.
\<close>

theorem post_category_validation_not_first:
  "stage_order (handlers post_category) \<noteq> [ValidationStage, AuthStage, RoleStage, ControllerStage] \<and>
   stage_order (handlers put_category) \<noteq> [ValidationStage, AuthStage, RoleStage, ControllerStage] \<and>
   stage_order (handlers delete_category) \<noteq> [ValidationStage, AuthStage, RoleStage, ControllerStage] \<and>
   map stage_of (take 3 (handlers post_category)) = [AuthStage, RoleStage, ValidationStage]"
  by (simp add: stage_order_def post_category_def put_category_def delete_category_def
      createCategoryValidation_def updateCategoryValidation_def)

text \<open>
  C7. A request to POST /api/categories whose identity has a role other than admin and
  super-admin is answered with the authorization failure by the role gate; only
  \<open>authMiddleware\<close> and \<open>adminMiddleware\<close> run, so no validation and no controller, and the
  store is the one the request found, whatever the controller would do.
\<close>

theorem non_admin_post_rejected:
  "req_user req = Some u \<Longrightarrow> role u \<noteq> ''admin'' \<Longrightarrow> role u \<noteq> ''super-admin'' \<Longrightarrow>
   run_route (spec_env ctrl) post_category req st =
     ([AuthMiddleware, AdminMiddleware [ADMIN, SUPER_ADMIN]], Some AuthorizationFailure, st) \<and>
   \<not> controller_ran (run_route (spec_env ctrl) post_category req st)"
  by (simp add: run_route_def post_category_def gate_closed controller_ran_def
      del: run_handlers.simps)

text \<open>
  A customer's creation request leaves the count of the store at 0; the same request of
  an administrator reaches the controller.
\<close>

theorem non_admin_post_rejected_witness:
  "run_route (spec_env counting_controller) post_category (create_request customer (js ''Tea'')) 0 =
     ([AuthMiddleware, AdminMiddleware [ADMIN, SUPER_ADMIN]], Some AuthorizationFailure, 0) \<and>
   run_route (spec_env counting_controller) post_category (create_request administrator (js ''Tea'')) 0 =
     (handlers post_category, Some (Success ''done''), 1)"
proof -
  have h: "req_user (create_request customer (js ''Tea'')) = Some customer"
    "role customer \<noteq> ''admin''" "role customer \<noteq> ''super-admin''"
    by (simp_all add: create_request_def body_request_def customer_def)
  from non_admin_post_rejected [OF h, of counting_controller 0] tea_created
  show ?thesis by simp
qed

lemma post_invalid:
  assumes "admin_identity req" "validationResult createCategoryValidation req \<noteq> []"
  shows "run_route (spec_env ctrl) post_category req st =
     (gate @ map Validation createCategoryValidation @ [ValidateMiddleware],
      Some (ValidationErrors (req_errors req @ validationResult createCategoryValidation req)),
      st)"
  unfolding run_route_def post_category_def gate_def
  by (simp add: gate_open [OF assms(1)] run_validations
        del: run_handlers.simps map_append list.map)
     (simp add: middleware_def spec_env_def validateMiddleware_def assms(2))

lemma post_gate_closed:
  "req_user req = None \<Longrightarrow>
   run_route (spec_env ctrl) post_category req st = ([AuthMiddleware], Some AuthorizationFailure, st)"
  "req_user req = Some u \<Longrightarrow> role u \<noteq> ''admin'' \<Longrightarrow> role u \<noteq> ''super-admin'' \<Longrightarrow>
   run_route (spec_env ctrl) post_category req st = (gate, Some AuthorizationFailure, st)"
  by (simp_all add: run_route_def post_category_def gate_def gate_closed gate_closed_anonymous
      del: run_handlers.simps)

text \<open>
  C6. For every category-creation payload whose name is a string of fewer than 2 or more
  than 100 characters (a surrogate pair is one character, the variation selectors U+FE0E
  and U+FE0F are not counted), the creation rules yield the length error of the name
  field. A request that carries it with an identity of role admin or super-admin is
  answered by \<open>validateMiddleware\<close> with the validation errors, that error among them, and
  the controller does not run; a request of another identity, or of none, is answered
  with the authorization failure before any validation runs.
\<close>

theorem name_length_rejected:
  "req_body req ''name'' = Some (JStr s) \<Longrightarrow> characters s < 2 \<or> 100 < characters s \<Longrightarrow>
   body_error ''name'' ''Category name must be between 2 and 100 characters''
     \<in> set (validationResult createCategoryValidation req) \<and>
   (admin_identity req \<longrightarrow>
      run_route (spec_env ctrl) post_category req st =
        (gate @ map Validation createCategoryValidation @ [ValidateMiddleware],
         Some (ValidationErrors (req_errors req @ validationResult createCategoryValidation req)),
         st)) \<and>
   (req_user req = None \<longrightarrow>
      run_route (spec_env ctrl) post_category req st =
        ([AuthMiddleware], Some AuthorizationFailure, st)) \<and>
   (req_user req = Some u \<and> role u \<noteq> ''admin'' \<and> role u \<noteq> ''super-admin'' \<longrightarrow>
      run_route (spec_env ctrl) post_category req st = (gate, Some AuthorizationFailure, st))"
proof -
  assume a: "req_body req ''name'' = Some (JStr s)" "characters s < 2 \<or> 100 < characters s"
  from name_length_error [OF a]
  have err: "body_error ''name'' ''Category name must be between 2 and 100 characters''
      \<in> set (validationResult createCategoryValidation req)" .
  then have ne: "validationResult createCategoryValidation req \<noteq> []" by auto
  from err post_invalid [OF _ ne, of ctrl st] post_gate_closed(1) [of req ctrl st]
    post_gate_closed(2) [of req u ctrl st]
  show ?thesis by blast
qed

text \<open>A name of one character, sent by an administrator.\<close>

theorem name_length_rejected_witness:
  "body_error ''name'' ''Category name must be between 2 and 100 characters''
     \<in> set (validationResult createCategoryValidation (create_request administrator (js ''T''))) \<and>
   run_route (spec_env counting_controller) post_category (create_request administrator (js ''T'')) 0 =
     (gate @ map Validation createCategoryValidation @ [ValidateMiddleware],
      Some (ValidationErrors
        (validationResult createCategoryValidation (create_request administrator (js ''T'')))), 0)"
proof -
  let ?req = "create_request administrator (js ''T'')"
  have h: "req_body ?req ''name'' = Some (JStr (js ''T''))"
    by (simp add: create_request_def body_request_def)
  have l: "characters (js ''T'') < 2 \<or> 100 < characters (js ''T'')"
    by (simp add: js_def variation_selector_def)
  have ad: "admin_identity ?req" "req_errors ?req = []"
    by (simp_all add: admin_identity_def create_request_def body_request_def administrator_def)
  from name_length_rejected [OF h l, of counting_controller 0] ad
  show ?thesis by simp
qed

text \<open>
  A customer's request with a name of one character is answered with the authorization
  failure, not with a length error; and an administrator's request with a name of 101
  code units creates the category.
\<close>

theorem short_name_by_customer:
  "characters (js ''T'') < 2 \<and>
   run_route (spec_env counting_controller) post_category (create_request customer (js ''T'')) 0 =
     (gate, Some AuthorizationFailure, 0) \<and>
   length long_name = 101 \<and>
   run_route (spec_env counting_controller) post_category (create_request administrator long_name) 0 =
     (handlers post_category, Some (Success ''done''), 1)"
proof -
  have c: "run_route (spec_env counting_controller) post_category
      (create_request customer (js ''T'')) 0 = (gate, Some AuthorizationFailure, 0)"
    by (rule post_gate_closed(2) [of _ customer])
       (simp_all add: create_request_def body_request_def customer_def)
  have v: "validationResult createCategoryValidation (create_request administrator long_name) = []"
    by (rule long_name_valid) (simp_all add: create_request_def body_request_def)
  have "admin_identity (create_request administrator long_name)"
    "req_errors (create_request administrator long_name) = []"
    by (simp_all add: admin_identity_def create_request_def body_request_def administrator_def)
  from post_valid [OF this(1) v this(2), of counting_controller 0]
  have l: "run_route (spec_env counting_controller) post_category
      (create_request administrator long_name) 0 =
      (handlers post_category, Some (Success ''done''), 1)"
    by (simp add: counting_controller_def)
  have "characters (js ''T'') < 2"
    by (simp add: js_def variation_selector_def)
  with c l characters_long_name show ?thesis by simp
qed

lemma id_chain_error:
  "req_params req ''id'' = Some s \<Longrightarrow> \<not> id_text s \<Longrightarrow> run_chain idValidation req = [id_error]"
  by (simp add: run_chain_def idValidation_def param_def select_field_def run_item_def id_error_def
      standard_values_def shallow_text_def isMongoId_id_text)

lemma id_chain_ok:
  "req_params req ''id'' = Some s \<Longrightarrow> id_text s \<Longrightarrow> run_chain idValidation req = []"
  by (simp add: run_chain_def idValidation_def param_def select_field_def run_item_def
      standard_values_def shallow_text_def isMongoId_id_text)

lemma get_invalid_id:
  assumes "req_params req ''id'' = Some s" "\<not> id_text s"
  shows "run_route (spec_env ctrl) get_category_by_id req st =
     ([Validation idValidation, ValidateMiddleware],
      Some (ValidationErrors (req_errors req @ [id_error])), st)"
  using assms
  by (simp add: run_route_def get_category_by_id_def middleware_def spec_env_def
      validateMiddleware_def id_chain_error)

lemma delete_invalid_id:
  assumes "req_params req ''id'' = Some s" "\<not> id_text s" "admin_identity req"
  shows "run_route (spec_env ctrl) delete_category req st =
     (gate @ [Validation idValidation, ValidateMiddleware],
      Some (ValidationErrors (req_errors req @ [id_error])), st)"
  unfolding run_route_def delete_category_def gate_def
  using assms(1,2)
  by (simp add: gate_open [OF assms(3)] del: run_handlers.simps)
     (simp add: middleware_def spec_env_def validateMiddleware_def id_chain_error)

lemma put_invalid_id:
  assumes "req_params req ''id'' = Some s" "\<not> id_text s" "admin_identity req"
  shows "run_route (spec_env ctrl) put_category req st =
     (gate @ map Validation (idValidation # updateCategoryValidation) @ [ValidateMiddleware],
      Some (ValidationErrors
        (req_errors req @ id_error # validationResult updateCategoryValidation req)), st)"
proof -
  have vr: "validationResult (idValidation # updateCategoryValidation) req =
      id_error # validationResult updateCategoryValidation req"
    using assms by (simp add: validationResult_def id_chain_error)
  show ?thesis
    unfolding run_route_def put_category_def gate_def
    by (simp add: gate_open [OF assms(3)] run_validations vr
          del: run_handlers.simps map_append list.map)
       (simp add: middleware_def spec_env_def validateMiddleware_def)
qed

lemma id_gate_closed:
  "req_user req = None \<Longrightarrow>
   run_route (spec_env ctrl) put_category req st = ([AuthMiddleware], Some AuthorizationFailure, st) \<and>
   run_route (spec_env ctrl) delete_category req st = ([AuthMiddleware], Some AuthorizationFailure, st)"
  "req_user req = Some u \<Longrightarrow> role u \<noteq> ''admin'' \<Longrightarrow> role u \<noteq> ''super-admin'' \<Longrightarrow>
   run_route (spec_env ctrl) put_category req st = (gate, Some AuthorizationFailure, st) \<and>
   run_route (spec_env ctrl) delete_category req st = (gate, Some AuthorizationFailure, st)"
  by (simp_all add: run_route_def put_category_def delete_category_def gate_def gate_closed
      gate_closed_anonymous del: run_handlers.simps)

text \<open>
  C10. For a request whose id parameter is neither 24 hexadecimal digits nor \<open>0x\<close> or
  \<open>0h\<close> and 22 hexadecimal digits: GET /:id is answered by \<open>validateMiddleware\<close> with the
  validation errors, "Invalid category ID" among them; PUT /:id and DELETE /:id are
  answered so when the identity of the request has the role admin or super-admin; a
  request of another identity, or of none, is answered with the authorization failure by
  the gate, before any validation runs. In every case the handlers that ran hold no
  controller and the store is unchanged.
\<close>

theorem invalid_id_rejected:
  "req_params req ''id'' = Some s \<Longrightarrow> \<not> objectid_string s \<Longrightarrow> \<not> prefixed_hex22 s \<Longrightarrow>
   run_route (spec_env ctrl) get_category_by_id req st =
     ([Validation idValidation, ValidateMiddleware],
      Some (ValidationErrors (req_errors req @ [id_error])), st) \<and>
   (admin_identity req \<longrightarrow>
      run_route (spec_env ctrl) put_category req st =
        (gate @ map Validation (idValidation # updateCategoryValidation) @ [ValidateMiddleware],
         Some (ValidationErrors
           (req_errors req @ id_error # validationResult updateCategoryValidation req)), st) \<and>
      run_route (spec_env ctrl) delete_category req st =
        (gate @ [Validation idValidation, ValidateMiddleware],
         Some (ValidationErrors (req_errors req @ [id_error])), st)) \<and>
   (req_user req = None \<longrightarrow>
      run_route (spec_env ctrl) put_category req st =
        ([AuthMiddleware], Some AuthorizationFailure, st) \<and>
      run_route (spec_env ctrl) delete_category req st =
        ([AuthMiddleware], Some AuthorizationFailure, st)) \<and>
   (req_user req = Some u \<and> role u \<noteq> ''admin'' \<and> role u \<noteq> ''super-admin'' \<longrightarrow>
      run_route (spec_env ctrl) put_category req st = (gate, Some AuthorizationFailure, st) \<and>
      run_route (spec_env ctrl) delete_category req st = (gate, Some AuthorizationFailure, st))"
proof -
  assume a: "req_params req ''id'' = Some s" and "\<not> objectid_string s" "\<not> prefixed_hex22 s"
  then have n: "\<not> id_text s" by (simp add: id_text_def)
  note get = get_invalid_id [OF a n, of ctrl st]
  note put = put_invalid_id [OF a n, of ctrl st]
  note del = delete_invalid_id [OF a n, of ctrl st]
  note closed = id_gate_closed(1) [of req ctrl st] id_gate_closed(2) [of req u ctrl st]
  from get put del closed show ?thesis by blast
qed

text \<open>The id \<open>xyz\<close>, sent by an administrator to the three routes.\<close>

theorem invalid_id_rejected_witness:
  "run_route (spec_env counting_controller) get_category_by_id
     (id_request (Some administrator) (js ''xyz'')) 0 =
     ([Validation idValidation, ValidateMiddleware], Some (ValidationErrors [id_error]), 0) \<and>
   run_route (spec_env counting_controller) delete_category
     (id_request (Some administrator) (js ''xyz'')) 0 =
     (gate @ [Validation idValidation, ValidateMiddleware], Some (ValidationErrors [id_error]), 0) \<and>
   rejects_invalid_id
     (run_route (spec_env counting_controller) put_category
        (id_request (Some administrator) (js ''xyz'')) 0)"
proof -
  let ?req = "id_request (Some administrator) (js ''xyz'')"
  have h: "req_params ?req ''id'' = Some (js ''xyz'')"
    by (simp add: id_request_def)
  have n: "\<not> objectid_string (js ''xyz'')" "\<not> prefixed_hex22 (js ''xyz'')"
    by (simp_all add: objectid_string_def prefixed_hex22_def js_def)
  have u: "admin_identity ?req" "req_errors ?req = []"
    by (simp_all add: admin_identity_def id_request_def administrator_def)
  from invalid_id_rejected [OF h n, of counting_controller 0] u
  show ?thesis by (simp add: rejects_invalid_id_def)
qed

text \<open>
  The same id sent to PUT /:id by a customer: the role gate answers, and the response is
  not the validation failure with "Invalid category ID".
\<close>

theorem put_invalid_id_by_customer:
  "\<not> isMongoId (js ''xyz'') \<and>
   run_route (spec_env counting_controller) put_category (id_request (Some customer) (js ''xyz'')) 0 =
     ([AuthMiddleware, AdminMiddleware [ADMIN, SUPER_ADMIN]], Some AuthorizationFailure, 0) \<and>
   \<not> rejects_invalid_id
       (run_route (spec_env counting_controller) put_category
          (id_request (Some customer) (js ''xyz'')) 0)"
proof -
  have c: "run_route (spec_env counting_controller) put_category
      (id_request (Some customer) (js ''xyz'')) 0 = (gate, Some AuthorizationFailure, 0)"
    using id_gate_closed(2) [of "id_request (Some customer) (js ''xyz'')" customer
        counting_controller 0]
    by (simp add: id_request_def customer_def)
  have "\<not> isMongoId (js ''xyz'')"
    by (simp add: isMongoId_def js_def)
  with c show ?thesis by (simp add: rejects_invalid_id_def gate_def)
qed

text \<open>
  An id of \<open>0x\<close> and 22 hexadecimal digits is no ObjectId string, passes the id check and
  reaches the controller of GET /:id.
\<close>

lemma prefixed_id_reaches_controller:
  "\<not> objectid_string (js ''0x07f1f77bcf86cd79943901'') \<and>
   run_route (spec_env counting_controller) get_category_by_id
     (id_request None (js ''0x07f1f77bcf86cd79943901'')) 0 =
     (handlers get_category_by_id, Some (Success ''done''), 1)"
proof -
  have "id_text (js ''0x07f1f77bcf86cd79943901'')"
    by (simp add: id_text_def prefixed_hex22_def hex_prefix_def is_hex_digit_def js_def)
  from id_chain_ok [OF _ this, of "id_request None (js ''0x07f1f77bcf86cd79943901'')"]
  have "run_chain idValidation (id_request None (js ''0x07f1f77bcf86cd79943901'')) = []"
    by (simp add: id_request_def)
  then have "run_route (spec_env counting_controller) get_category_by_id
     (id_request None (js ''0x07f1f77bcf86cd79943901'')) 0 =
     (handlers get_category_by_id, Some (Success ''done''), 1)"
    by (simp add: run_route_def get_category_by_id_def middleware_def spec_env_def
        validateMiddleware_def counting_controller_def id_request_def)
  moreover have "\<not> objectid_string (js ''0x07f1f77bcf86cd79943901'')"
    by (simp add: objectid_string_def is_hex_digit_def js_def)
  ultimately show ?thesis by simp
qed

end
